theory Spec2Isabelle
  imports Main "HOL-Library.Sublist"
begin

section \<open>The command-line entry point of online-judge-tools\<close>

text \<open>
  This theory embeds \<^verbatim>\<open>onlinejudge_command/main.py\<close>: the three functions
  \<^verbatim>\<open>get_parser\<close>, \<^verbatim>\<open>run_program\<close> and \<^verbatim>\<open>main\<close>. The program is a sequence of
  effects (printing, logging, calling a subcommand, leaving the process), so every
  function of the model returns the list of effects it performed, in order, together
  with its result: \<open>Inr ()\<close> when the Python function returns, \<open>Inl e\<close> when it
  raises \<open>e\<close>. A call of \<^verbatim>\<open>sys.exit(n)\<close> raises \<open>SystemExit n\<close>.
\<close>

subsection \<open>Data\<close>

text \<open>
  The namespace produced by \<^verbatim>\<open>parser.parse_args\<close>: the three global options declared
  in \<^verbatim>\<open>get_parser\<close>, the destination \<^verbatim>\<open>subcommand\<close> of the subparsers (Python's
  \<^verbatim>\<open>None\<close> when no subcommand was given), and the fields the subcommand's own parser
  adds, which this module never reads.
\<close>

record parsed_arguments =
  verbose :: bool
  cookie :: string
  version :: bool
  subcommand :: "string option"
  specific :: "string list"

text \<open>
  The exceptions that matter to the two \<^verbatim>\<open>except\<close> clauses of \<^verbatim>\<open>main\<close>, by their
  place in Python's class hierarchy: \<^verbatim>\<open>NotImplementedError\<close> (or a subclass of it),
  any other subclass of \<^verbatim>\<open>Exception\<close>, \<^verbatim>\<open>SystemExit\<close> with its status, and any
  other direct descendant of \<^verbatim>\<open>BaseException\<close> (\<^verbatim>\<open>KeyboardInterrupt\<close>,
  \<^verbatim>\<open>GeneratorExit\<close>). The string is the text \<^verbatim>\<open>str(e)\<close> gives; for
  \<^verbatim>\<open>SystemExit\<close> that text is the status.
\<close>

datatype exn =
    NotImplementedError string
  | OtherException string
  | SystemExit int
  | OtherBaseException string

fun isinstance_NotImplementedError :: "exn \<Rightarrow> bool" where
  "isinstance_NotImplementedError (NotImplementedError m) = True"
| "isinstance_NotImplementedError (OtherException m) = False"
| "isinstance_NotImplementedError (SystemExit n) = False"
| "isinstance_NotImplementedError (OtherBaseException m) = False"

fun isinstance_Exception :: "exn \<Rightarrow> bool" where
  "isinstance_Exception (NotImplementedError m) = True"
| "isinstance_Exception (OtherException m) = True"
| "isinstance_Exception (SystemExit n) = False"
| "isinstance_Exception (OtherBaseException m) = False"

text \<open>Python's \<^verbatim>\<open>str\<close> of an integer: its decimal digits, after the sign.\<close>

fun str_nat :: "nat \<Rightarrow> string" where
  "str_nat n =
     (if n < 10 then [''0123456789'' ! n]
      else str_nat (n div 10) @ [''0123456789'' ! (n mod 10)])"

definition str_int :: "int \<Rightarrow> string" where
  "str_int i = (if i < 0 then CHR ''-'' # str_nat (nat (- i)) else str_nat (nat i))"

fun str_exn :: "exn \<Rightarrow> string" where
  "str_exn (NotImplementedError m) = m"
| "str_exn (OtherException m) = m"
| "str_exn (SystemExit n) = str_int n"
| "str_exn (OtherBaseException m) = m"

text \<open>The seven subcommand functions that \<^verbatim>\<open>run_program\<close> can call.\<close>

datatype handler =
    Download
  | Login
  | Submit
  | Test
  | Test_reactive
  | Generate_output
  | Generate_input

datatype level = DEBUG | INFO | ERROR

datatype stream = Stdout | Stderr

text \<open>
  The effects of the module, one constructor for each kind of call in the source:
  \<^verbatim>\<open>basicConfig(level=..., handlers=[StreamHandler(...)])\<close> with the streams of its
  handlers, \<^verbatim>\<open>update_checking.run()\<close>, \<^verbatim>\<open>print\<close>, \<^verbatim>\<open>parser.print_help(file=...)\<close>
  (also what argparse does itself for \<^verbatim>\<open>-h\<close>, on the standard output), the usage
  error argparse writes to the error stream before it leaves with status 2, the four
  logger methods used (\<^verbatim>\<open>logger.exception\<close> logs at severity ERROR and appends the
  trace), and the call of a subcommand function. What a subcommand function or a
  subcommand's own parser does inside is outside this module and is not recorded.
\<close>

datatype event =
    BasicConfig level "stream list"
  | UpdateCheck
  | Print string
  | PrintHelp stream
  | ParserError
  | LoggerDebug string
  | LoggerInfo string
  | LoggerError string
  | LoggerException string
  | Call handler

text \<open>
  What the module takes from its collaborators, none of which is in this file of
  the repository: the two version strings, \<^verbatim>\<open>utils.default_cookie_path\<close>,
  \<^verbatim>\<open>utils.HINT\<close>, the rendering \<^verbatim>\<open>str(args)\<close> of a namespace, the text of
  \<^verbatim>\<open>traceback.format_exc()\<close> for the exception being handled, the boolean
  \<^verbatim>\<open>update_checking.run()\<close> returns, for each subcommand function whether it
  returns (\<open>None\<close>) or raises (\<open>Some e\<close>) on given arguments, and what the seven
  \<^verbatim>\<open>add_subparser\<close> functions contribute to the parser: the names they register
  (canonical names and aliases), and for a registered name and the arguments after it
  whether the subcommand's own parser accepts them (\<open>None\<close>) or leaves the process
  with a status (\<open>Some n\<close>: its own usage error or help).
\<close>

record env =
  tool_version :: string
  api_version :: string
  default_cookie_path :: string
  HINT :: string
  str_args :: "parsed_arguments \<Rightarrow> string"
  format_exc :: "exn \<Rightarrow> string"
  update_checking_run :: bool
  subcommand_function :: "handler \<Rightarrow> parsed_arguments \<Rightarrow> exn option"
  subparser_names :: "string list"
  subparser_leaves :: "string \<Rightarrow> string list \<Rightarrow> int option"

subsection \<open>The parser\<close>

text \<open>
  \<^verbatim>\<open>get_parser\<close> declares \<^verbatim>\<open>-v/--verbose\<close> and \<^verbatim>\<open>--version\<close> with action
  \<^verbatim>\<open>store_true\<close> (default \<^verbatim>\<open>False\<close>), \<^verbatim>\<open>-c/--cookie\<close> storing a path with default
  \<^verbatim>\<open>utils.default_cookie_path\<close>, and subparsers with destination \<^verbatim>\<open>subcommand\<close>,
  to which the collaborators add their names; argparse adds \<^verbatim>\<open>-h/--help\<close> itself.
  The parser is represented by the namespace of defaults these declarations give,
  the names the subparsers accept, and the subcommands' own parsers.

  A command line is represented by the occurrences of the declared global options on
  it, in order, the subcommand token if any, and the arguments after it. How
  argparse splits the words of the command line belongs to the library; a word
  before the token that is no occurrence of a declared option has no representation
  here.
\<close>

datatype global_option = Opt_verbose | Opt_cookie string | Opt_version | Opt_help

record command_line =
  global_options :: "global_option list"
  subcommand_token :: "string option"
  subcommand_args :: "string list"

record parser =
  defaults :: parsed_arguments
  choices :: "string list"
  subparser :: "string \<Rightarrow> string list \<Rightarrow> int option"

definition get_parser :: "env \<Rightarrow> parser" where
  "get_parser e =
     \<lparr>defaults =
        \<lparr>verbose = False, cookie = default_cookie_path e, version = False,
         subcommand = None, specific = []\<rparr>,
      choices = subparser_names e,
      subparser = subparser_leaves e\<rparr>"

text \<open>
  argparse takes the options from left to right and performs the action of each as
  it meets it: the two flags and the cookie path are stored; \<^verbatim>\<open>-h\<close> prints the
  help on the standard output and leaves with status 0.
\<close>

fun take_action ::
  "parsed_arguments \<Rightarrow> global_option list \<Rightarrow> (event list \<times> exn) + parsed_arguments" where
  "take_action ns [] = Inr ns"
| "take_action ns (Opt_verbose # os) = take_action (ns\<lparr>verbose := True\<rparr>) os"
| "take_action ns (Opt_cookie p # os) = take_action (ns\<lparr>cookie := p\<rparr>) os"
| "take_action ns (Opt_version # os) = take_action (ns\<lparr>version := True\<rparr>) os"
| "take_action ns (Opt_help # os) = Inl ([PrintHelp Stdout], SystemExit 0)"

text \<open>
  \<^verbatim>\<open>parser.parse_args\<close>: \<open>Inr\<close> the namespace, or \<open>Inl\<close> what argparse did before
  it left the process and the SystemExit it raised. With no token the destination
  \<^verbatim>\<open>subcommand\<close> keeps its default \<^verbatim>\<open>None\<close> (the subparsers are not required). A
  token that is no registered name is a usage error, status 2. A registered name
  hands the remaining arguments to that subcommand's parser, which may leave too.
\<close>

definition parse_args ::
  "parser \<Rightarrow> command_line \<Rightarrow> (event list \<times> exn) + parsed_arguments" where
  "parse_args p argv =
     (case take_action (defaults p) (global_options argv) of
        Inl x \<Rightarrow> Inl x
      | Inr ns \<Rightarrow>
          (case subcommand_token argv of
             None \<Rightarrow> Inr ns
           | Some t \<Rightarrow>
               if t \<notin> set (choices p) then Inl ([ParserError], SystemExit 2)
               else
                 (case subparser p t (subcommand_args argv) of
                    Some n \<Rightarrow> Inl ([], SystemExit n)
                  | None \<Rightarrow>
                      Inr (ns\<lparr>subcommand := Some t,
                              specific := subcommand_args argv\<rparr>))))"

subsection \<open>run_program\<close>

text \<open>
  Python's \<^verbatim>\<open>args.subcommand in [...]\<close>: \<^verbatim>\<open>None\<close> is in no list of strings.
\<close>

fun is_in :: "string option \<Rightarrow> string list \<Rightarrow> bool" where
  "is_in None xs = False"
| "is_in (Some s) xs = (s \<in> set xs)"

text \<open>Calling a subcommand function: the call is recorded, then it returns or raises.\<close>

definition call :: "env \<Rightarrow> handler \<Rightarrow> parsed_arguments \<Rightarrow> event list \<times> (exn + unit)" where
  "call e h args =
     ([Call h], case subcommand_function e h args of None \<Rightarrow> Inr () | Some x \<Rightarrow> Inl x)"

text \<open>
  Running \<open>k\<close> after the effects \<open>evs\<close> already performed.
\<close>

definition after :: "event list \<Rightarrow> event list \<times> (exn + unit) \<Rightarrow> event list \<times> (exn + unit)" where
  "after evs k = (evs @ fst k, snd k)"

definition run_program :: "env \<Rightarrow> parsed_arguments \<Rightarrow> event list \<times> (exn + unit)" where
  "run_program e args =
     (if version args then
        ([Print (''online-judge-tools '' @ tool_version e
                   @ '' (+ online-judge-api-client '' @ api_version e @ '')'')],
         Inl (SystemExit 0))
      else
        after
          [LoggerDebug (''args: '' @ str_args e args),
           LoggerInfo (''online-judge-tools '' @ tool_version e
                         @ '' (+ online-judge-api-client '' @ api_version e @ '')'')]
          (if is_in (subcommand args) [''download'', ''d'', ''dl''] then
             call e Download args
           else if is_in (subcommand args) [''login'', ''l''] then
             call e Login args
           else if is_in (subcommand args) [''submit'', ''s''] then
             call e Submit args
           else if is_in (subcommand args) [''test'', ''t''] then
             call e Test args
           else if is_in (subcommand args) [''test-reactive'', ''t/r''] then
             call e Test_reactive args
           else if is_in (subcommand args) [''generate-output'', ''g/o''] then
             call e Generate_output args
           else if is_in (subcommand args) [''generate-input'', ''g/i''] then
             call e Generate_input args
           else
             ([PrintHelp Stderr], Inl (SystemExit 1))))"

subsection \<open>main\<close>

text \<open>
  The upgrade hint both \<^verbatim>\<open>except\<close> clauses log when \<^verbatim>\<open>is_updated\<close> is false.
\<close>

definition upgrade_hint :: "env \<Rightarrow> event" where
  "upgrade_hint e =
     LoggerInfo (HINT e @ ''try updating the version of online-judge-tools: $ pip3 install -U online-judge-tools online-judge-api-client'')"

text \<open>
  \<^verbatim>\<open>main\<close>: parse (outside \<^verbatim>\<open>try\<close>: when argparse leaves, \<^verbatim>\<open>main\<close> ends there),
  configure logging, ask the update check, then \<^verbatim>\<open>run_program\<close> inside \<^verbatim>\<open>try\<close>.
  The \<^verbatim>\<open>except\<close> clauses are tried in the order of the source, each one an
  \<^verbatim>\<open>isinstance\<close> test; an exception neither clause matches leaves \<^verbatim>\<open>main\<close> as it
  is.
\<close>

definition main :: "env \<Rightarrow> command_line \<Rightarrow> event list \<times> (exn + unit)" where
  "main e argv =
     (let parser = get_parser e in
      case parse_args parser argv of
        Inl (evs, x) \<Rightarrow> (evs, Inl x)
      | Inr parsed \<Rightarrow>
          (let level = (if verbose parsed then DEBUG else INFO);
               is_updated = update_checking_run e;
               r = after [BasicConfig level [Stdout], UpdateCheck] (run_program e parsed)
           in case snd r of
                Inr u \<Rightarrow> r
              | Inl x \<Rightarrow>
                  if isinstance_NotImplementedError x then
                    (fst r
                       @ [LoggerDebug (CHR 0x0A # format_exc e x),
                          LoggerError ''NotImplementedError'',
                          LoggerInfo ''The operation you specified is not supported yet. Pull requests are welcome.'',
                          LoggerInfo ''see: https://github.com/online-judge-tools/oj'']
                       @ (if \<not> is_updated then [upgrade_hint e] else []),
                     Inl (SystemExit 1))
                  else if isinstance_Exception x then
                    (fst r
                       @ [LoggerDebug (CHR 0x0A # format_exc e x),
                          LoggerException (str_exn x)]
                       @ (if \<not> is_updated then [upgrade_hint e] else []),
                     Inl (SystemExit 1))
                  else r))"

subsection \<open>Reading a run\<close>

text \<open>The subcommand functions called during a run, in order.\<close>

fun calls :: "event list \<Rightarrow> handler list" where
  "calls [] = []"
| "calls (Call h # evs) = h # calls evs"
| "calls (ev # evs) = calls evs"

text \<open>
  The severity and the message of the record a logger call makes; the other effects
  make no record.
\<close>

fun severity :: "event \<Rightarrow> level option" where
  "severity (LoggerDebug m) = Some DEBUG"
| "severity (LoggerInfo m) = Some INFO"
| "severity (LoggerError m) = Some ERROR"
| "severity (LoggerException m) = Some ERROR"
| "severity ev = None"

fun message :: "event \<Rightarrow> string" where
  "message (LoggerDebug m) = m"
| "message (LoggerInfo m) = m"
| "message (LoggerError m) = m"
| "message (LoggerException m) = m"
| "message ev = []"

text \<open>
  The alias table as the specification gives it: canonical name, aliases, handler.
  This table is written from the specification, not from the source; the theorems
  below compare \<open>run_program\<close> with it.
\<close>

definition spec_registry :: "(string \<times> string list \<times> handler) list" where
  "spec_registry =
     [(''download'', [''d'', ''dl''], Download),
      (''login'', [''l''], Login),
      (''submit'', [''s''], Submit),
      (''test'', [''t''], Test),
      (''test-reactive'', [''t/r''], Test_reactive),
      (''generate-output'', [''g/o''], Generate_output),
      (''generate-input'', [''g/i''], Generate_input)]"

definition spec_tokens :: "string list" where
  "spec_tokens = concat (map (\<lambda>(name, aliases, h). name # aliases) spec_registry)"

subsection \<open>Concrete collaborators and command lines\<close>

text \<open>
  One choice of collaborators, used to run the model on concrete command lines: the
  update check answers that the tool is not current, \<^verbatim>\<open>login\<close> raises
  \<^verbatim>\<open>NotImplementedError\<close>, \<^verbatim>\<open>submit\<close> raises another exception with the text
  \<^verbatim>\<open>boom\<close>, and the other subcommand functions return; the subparsers register the
  names and aliases the specification lists, in the order \<^verbatim>\<open>get_parser\<close> adds them,
  and accept every argument list.
\<close>

definition example_env :: env where
  "example_env =
     \<lparr>tool_version = ''11.5.1'',
      api_version = ''10.10.1'',
      default_cookie_path = ''cookie.jar'',
      HINT = ''HINT: '',
      str_args = (\<lambda>a. ''Namespace''),
      format_exc = (\<lambda>x. ''Traceback (most recent call last)''),
      update_checking_run = False,
      subcommand_function =
        (\<lambda>h a. if h = Login then Some (NotImplementedError [])
               else if h = Submit then Some (OtherException ''boom'')
               else None),
      subparser_names =
        [''download'', ''d'', ''dl'', ''login'', ''l'', ''submit'', ''s'', ''test'', ''t'',
         ''generate-output'', ''g/o'', ''generate-input'', ''g/i'', ''test-reactive'', ''t/r''],
      subparser_leaves = (\<lambda>t a. None)\<rparr>"

definition argv_version :: command_line where
  "argv_version =
     \<lparr>global_options = [Opt_version], subcommand_token = None, subcommand_args = []\<rparr>"

definition argv_none :: command_line where
  "argv_none =
     \<lparr>global_options = [], subcommand_token = None, subcommand_args = []\<rparr>"

definition argv_dl :: command_line where
  "argv_dl =
     \<lparr>global_options = [Opt_verbose], subcommand_token = Some ''dl'',
      subcommand_args = []\<rparr>"

definition argv_login :: command_line where
  "argv_login =
     \<lparr>global_options = [], subcommand_token = Some ''l'', subcommand_args = []\<rparr>"

definition argv_submit :: command_line where
  "argv_submit =
     \<lparr>global_options = [Opt_cookie ''my.jar''], subcommand_token = Some ''submit'',
      subcommand_args = [''main.cpp'']\<rparr>"

definition argv_bogus :: command_line where
  "argv_bogus =
     \<lparr>global_options = [], subcommand_token = Some ''bogus'', subcommand_args = []\<rparr>"

definition argv_help :: command_line where
  "argv_help =
     \<lparr>global_options = [Opt_help], subcommand_token = None, subcommand_args = []\<rparr>"

section \<open>Properties\<close>

subsection \<open>The text of an exit status\<close>

lemma str_exit_examples:
  "str_exn (SystemExit 1) = ''1''" "str_exn (SystemExit 0) = ''0''"
  "str_exn (SystemExit 130) = ''130''" "str_exn (SystemExit (- 2)) = ''-2''"
  by code_simp+

subsection \<open>The parser\<close>

lemma take_action_flags:
  "take_action ns os = Inr ns' \<Longrightarrow>
     version ns' = (version ns \<or> Opt_version \<in> set os)
   \<and> verbose ns' = (verbose ns \<or> Opt_verbose \<in> set os)
   \<and> subcommand ns' = subcommand ns
   \<and> Opt_help \<notin> set os"
  by (induction ns os rule: take_action.induct) auto

lemma take_action_cookie:
  "take_action ns os = Inr ns' \<Longrightarrow> \<forall>p. Opt_cookie p \<notin> set os \<Longrightarrow> cookie ns' = cookie ns"
  by (induction ns os rule: take_action.induct) auto

lemma take_action_no_help:
  "Opt_help \<notin> set os \<Longrightarrow> \<exists>ns'. take_action ns os = Inr ns'"
  by (induction ns os rule: take_action.induct) auto

lemma parse_args_takes:
  assumes "parse_args p argv = Inr args"
  obtains ns where "take_action (defaults p) (global_options argv) = Inr ns"
    and "version args = version ns" and "verbose args = verbose ns"
    and "cookie args = cookie ns"
    and "subcommand_token argv = None \<longrightarrow> subcommand args = subcommand ns"
    and "\<forall>t. subcommand_token argv = Some t \<longrightarrow> subcommand args = Some t"
  using assms
  by (auto simp: parse_args_def split: sum.splits option.splits if_splits)

lemma parse_args_subcommand:
  assumes "parse_args (get_parser e) argv = Inr args"
  shows "subcommand args = subcommand_token argv"
proof -
  obtain ns where ns: "take_action (defaults (get_parser e)) (global_options argv) = Inr ns"
    and a: "subcommand_token argv = None \<longrightarrow> subcommand args = subcommand ns"
    and b: "\<forall>t. subcommand_token argv = Some t \<longrightarrow> subcommand args = Some t"
    using assms by (rule parse_args_takes)
  have "subcommand ns = None"
    using take_action_flags [OF ns] by (simp add: get_parser_def)
  with a b show ?thesis
    by (cases "subcommand_token argv") simp_all
qed

lemma parse_args_version:
  assumes "parse_args (get_parser e) argv = Inr args"
  shows "version args = (Opt_version \<in> set (global_options argv))"
proof -
  obtain ns where ns: "take_action (defaults (get_parser e)) (global_options argv) = Inr ns"
    and a: "version args = version ns"
    using assms by (rule parse_args_takes)
  show ?thesis
    using take_action_flags [OF ns] a by (simp add: get_parser_def)
qed

lemma parse_args_verbose:
  assumes "parse_args (get_parser e) argv = Inr args"
  shows "verbose args = (Opt_verbose \<in> set (global_options argv))"
proof -
  obtain ns where ns: "take_action (defaults (get_parser e)) (global_options argv) = Inr ns"
    and a: "verbose args = verbose ns"
    using assms by (rule parse_args_takes)
  show ?thesis
    using take_action_flags [OF ns] a by (simp add: get_parser_def)
qed

lemma parse_args_cookie:
  assumes "parse_args (get_parser e) argv = Inr args"
    and "\<forall>p. Opt_cookie p \<notin> set (global_options argv)"
  shows "cookie args = default_cookie_path e"
proof -
  obtain ns where ns: "take_action (defaults (get_parser e)) (global_options argv) = Inr ns"
    and a: "cookie args = cookie ns"
    using assms(1) by (rule parse_args_takes)
  show ?thesis
    using take_action_cookie [OF ns assms(2)] a by (simp add: get_parser_def)
qed

lemma parse_args_accepts:
  assumes "parse_args (get_parser e) argv = Inr args"
  shows "Opt_help \<notin> set (global_options argv)
       \<and> (\<forall>t. subcommand_token argv = Some t \<longrightarrow> t \<in> set (subparser_names e))"
proof -
  obtain ns where ns: "take_action (defaults (get_parser e)) (global_options argv) = Inr ns"
    using assms by (rule parse_args_takes)
  have "\<forall>t. subcommand_token argv = Some t \<longrightarrow> t \<in> set (subparser_names e)"
    using assms ns
    by (auto simp: parse_args_def get_parser_def split: option.splits if_splits)
  with take_action_flags [OF ns] show ?thesis
    by simp
qed

lemma parse_args_unregistered:
  assumes "Opt_help \<notin> set (global_options argv)"
    and "subcommand_token argv = Some t" and "t \<notin> set (subparser_names e)"
  shows "parse_args (get_parser e) argv = Inl ([ParserError], SystemExit 2)"
proof -
  obtain ns' where
    "take_action (defaults (get_parser e)) (global_options argv) = Inr ns'"
    using take_action_no_help [OF assms(1)] by blast
  with assms(2,3) show ?thesis
    by (simp add: parse_args_def get_parser_def)
qed

text \<open>The example command lines, parsed with the example collaborators.\<close>

lemma parse_examples:
  "parse_args (get_parser example_env) argv_version =
     Inr \<lparr>verbose = False, cookie = ''cookie.jar'', version = True, subcommand = None,
          specific = []\<rparr>"
  "parse_args (get_parser example_env) argv_none =
     Inr \<lparr>verbose = False, cookie = ''cookie.jar'', version = False, subcommand = None,
          specific = []\<rparr>"
  "parse_args (get_parser example_env) argv_dl =
     Inr \<lparr>verbose = True, cookie = ''cookie.jar'', version = False,
          subcommand = Some ''dl'', specific = []\<rparr>"
  "parse_args (get_parser example_env) (argv_dl\<lparr>subcommand_token := Some ''download''\<rparr>) =
     Inr \<lparr>verbose = True, cookie = ''cookie.jar'', version = False,
          subcommand = Some ''download'', specific = []\<rparr>"
  "parse_args (get_parser example_env) argv_login =
     Inr \<lparr>verbose = False, cookie = ''cookie.jar'', version = False,
          subcommand = Some ''l'', specific = []\<rparr>"
  "parse_args (get_parser example_env) argv_submit =
     Inr \<lparr>verbose = False, cookie = ''my.jar'', version = False,
          subcommand = Some ''submit'', specific = [''main.cpp'']\<rparr>"
  "parse_args (get_parser example_env)
     (argv_submit\<lparr>global_options := [Opt_verbose, Opt_version, Opt_cookie ''x'']\<rparr>) =
     Inr \<lparr>verbose = True, cookie = ''x'', version = True,
          subcommand = Some ''submit'', specific = [''main.cpp'']\<rparr>"
  "parse_args (get_parser example_env) argv_bogus = Inl ([ParserError], SystemExit 2)"
  "parse_args (get_parser example_env) argv_help = Inl ([PrintHelp Stdout], SystemExit 0)"
  by (simp_all add: parse_args_def get_parser_def example_env_def argv_version_def
      argv_none_def argv_dl_def argv_login_def argv_submit_def argv_bogus_def argv_help_def)

subsection \<open>The branches of run_program\<close>

lemma calls_append: "calls (xs @ ys) = calls xs @ calls ys"
  by (induction xs rule: calls.induct) simp_all

lemma run_program_version:
  "version args \<Longrightarrow>
   run_program e args =
     ([Print (''online-judge-tools '' @ tool_version e
                @ '' (+ online-judge-api-client '' @ api_version e @ '')'')],
      Inl (SystemExit 0))"
  by (simp add: run_program_def)

lemma registry_entries:
  "(name, aliases, h) \<in> set spec_registry \<Longrightarrow>
    (name = ''download'' \<and> aliases = [''d'', ''dl''] \<and> h = Download)
  \<or> (name = ''login'' \<and> aliases = [''l''] \<and> h = Login)
  \<or> (name = ''submit'' \<and> aliases = [''s''] \<and> h = Submit)
  \<or> (name = ''test'' \<and> aliases = [''t''] \<and> h = Test)
  \<or> (name = ''test-reactive'' \<and> aliases = [''t/r''] \<and> h = Test_reactive)
  \<or> (name = ''generate-output'' \<and> aliases = [''g/o''] \<and> h = Generate_output)
  \<or> (name = ''generate-input'' \<and> aliases = [''g/i''] \<and> h = Generate_input)"
  by (simp add: spec_registry_def)

lemma registry_tokens:
  assumes "(name, aliases, h) \<in> set spec_registry" and "tok \<in> set (name # aliases)"
  shows "(h = Download \<and> (tok = ''download'' \<or> tok = ''d'' \<or> tok = ''dl''))
       \<or> (h = Login \<and> (tok = ''login'' \<or> tok = ''l''))
       \<or> (h = Submit \<and> (tok = ''submit'' \<or> tok = ''s''))
       \<or> (h = Test \<and> (tok = ''test'' \<or> tok = ''t''))
       \<or> (h = Test_reactive \<and> (tok = ''test-reactive'' \<or> tok = ''t/r''))
       \<or> (h = Generate_output \<and> (tok = ''generate-output'' \<or> tok = ''g/o''))
       \<or> (h = Generate_input \<and> (tok = ''generate-input'' \<or> tok = ''g/i''))"
  using registry_entries [OF assms(1)] assms(2)
  by (elim disjE conjE) simp_all

lemma run_program_handler:
  assumes "\<not> version args" and "subcommand args = Some tok"
    and "(name, aliases, h) \<in> set spec_registry" and "tok \<in> set (name # aliases)"
  shows "run_program e args =
     ([LoggerDebug (''args: '' @ str_args e args),
       LoggerInfo (''online-judge-tools '' @ tool_version e
                     @ '' (+ online-judge-api-client '' @ api_version e @ '')''),
       Call h],
      case subcommand_function e h args of None \<Rightarrow> Inr () | Some x \<Rightarrow> Inl x)"
  using registry_tokens [OF assms(3,4)] assms(1,2)
  by (elim disjE conjE) (simp_all add: run_program_def after_def call_def)

lemma run_program_no_handler:
  assumes "\<not> version args"
    and "subcommand args = None
         \<or> (\<exists>tok. subcommand args = Some tok \<and> tok \<notin> set spec_tokens)"
  shows "run_program e args =
     ([LoggerDebug (''args: '' @ str_args e args),
       LoggerInfo (''online-judge-tools '' @ tool_version e
                     @ '' (+ online-judge-api-client '' @ api_version e @ '')''),
       PrintHelp Stderr],
      Inl (SystemExit 1))"
  using assms
  by (elim disjE exE conjE)
     (simp_all add: run_program_def spec_registry_def spec_tokens_def after_def)

lemma run_program_called:
  assumes "calls (fst (run_program e args)) = [h]"
  shows "\<not> version args \<and> run_program e args =
     ([LoggerDebug (''args: '' @ str_args e args),
       LoggerInfo (''online-judge-tools '' @ tool_version e
                     @ '' (+ online-judge-api-client '' @ api_version e @ '')''),
       Call h],
      case subcommand_function e h args of None \<Rightarrow> Inr () | Some x \<Rightarrow> Inl x)"
  using assms
  by (simp add: run_program_def after_def call_def split: if_splits)

lemma run_program_no_BasicConfig:
  "BasicConfig l s \<notin> set (fst (run_program e args))"
  by (simp add: run_program_def after_def call_def)

lemma run_program_announces:
  "\<not> version args \<Longrightarrow>
   \<exists>rest. fst (run_program e args) =
     [LoggerDebug (''args: '' @ str_args e args),
      LoggerInfo (''online-judge-tools '' @ tool_version e
                    @ '' (+ online-judge-api-client '' @ api_version e @ '')'')] @ rest"
  by (simp add: run_program_def after_def)

subsection \<open>The shape of main\<close>

lemma main_parser_leaves:
  "parse_args (get_parser e) argv = Inl (evs, x) \<Longrightarrow> main e argv = (evs, Inl x)"
  by (simp add: main_def)

lemma main_events:
  assumes "parse_args (get_parser e) argv = Inr args"
  shows "fst (main e argv) =
     BasicConfig (if verbose args then DEBUG else INFO) [Stdout]
     # UpdateCheck
     # fst (run_program e args)
     @ (case snd (run_program e args) of
          Inr u \<Rightarrow> []
        | Inl x \<Rightarrow>
            if isinstance_NotImplementedError x then
              [LoggerDebug (CHR 0x0A # format_exc e x),
               LoggerError ''NotImplementedError'',
               LoggerInfo ''The operation you specified is not supported yet. Pull requests are welcome.'',
               LoggerInfo ''see: https://github.com/online-judge-tools/oj'']
              @ (if update_checking_run e then [] else [upgrade_hint e])
            else if isinstance_Exception x then
              [LoggerDebug (CHR 0x0A # format_exc e x), LoggerException (str_exn x)]
              @ (if update_checking_run e then [] else [upgrade_hint e])
            else [])"
  using assms by (simp add: main_def Let_def after_def split: sum.splits)

lemma main_result:
  assumes "parse_args (get_parser e) argv = Inr args"
  shows "snd (main e argv) =
     (case snd (run_program e args) of
        Inr u \<Rightarrow> Inr u
      | Inl x \<Rightarrow>
          if isinstance_NotImplementedError x \<or> isinstance_Exception x
          then Inl (SystemExit 1) else Inl x)"
  using assms by (simp add: main_def Let_def after_def split: sum.splits)

lemma calls_main:
  assumes "parse_args (get_parser e) argv = Inr args"
  shows "calls (fst (main e argv)) = calls (fst (run_program e args))"
  by (simp add: main_events [OF assms] calls_append upgrade_hint_def split: sum.splits)

lemma hint_text_neq:
  assumes "last s \<noteq> CHR ''t''"
  shows "h @ ''try updating the version of online-judge-tools: $ pip3 install -U online-judge-tools online-judge-api-client'' \<noteq> s"
proof
  assume "h @ ''try updating the version of online-judge-tools: $ pip3 install -U online-judge-tools online-judge-api-client'' = s"
  then have "last (h @ ''try updating the version of online-judge-tools: $ pip3 install -U online-judge-tools online-judge-api-client'') = last s"
    by (rule arg_cong)
  with assms show False by simp
qed

lemma main_handler_raises:
  assumes "parse_args (get_parser e) argv = Inr args"
    and "calls (fst (main e argv)) = [h]"
    and "subcommand_function e h args = Some x"
  shows "\<not> version args
       \<and> run_program e args =
           ([LoggerDebug (''args: '' @ str_args e args),
             LoggerInfo (''online-judge-tools '' @ tool_version e
                           @ '' (+ online-judge-api-client '' @ api_version e @ '')''),
             Call h],
            Inl x)"
  using run_program_called [of e args h] assms
  by (simp add: calls_main)

text \<open>
  An exception that is no instance of Exception (SystemExit, KeyboardInterrupt) is
  matched by neither except clause: it leaves \<^verbatim>\<open>main\<close> as it left
  \<^verbatim>\<open>run_program\<close>, and nothing more is logged.
\<close>

lemma main_passes_other:
  assumes "parse_args (get_parser e) argv = Inr args"
    and "snd (run_program e args) = Inl x"
    and "\<not> isinstance_Exception x"
  shows "main e argv =
           (BasicConfig (if verbose args then DEBUG else INFO) [Stdout]
            # UpdateCheck # fst (run_program e args),
            Inl x)"
proof -
  have "\<not> isinstance_NotImplementedError x"
    using assms(3) by (cases x) simp_all
  with assms show ?thesis
    by (simp add: prod_eq_iff main_events main_result)
qed

lemma take_action_help:
  "Opt_help \<in> set os \<Longrightarrow> take_action ns os = Inl ([PrintHelp Stdout], SystemExit 0)"
  by (induction ns os rule: take_action.induct) auto

lemma parse_args_help:
  "Opt_help \<in> set (global_options argv) \<Longrightarrow>
   parse_args (get_parser e) argv = Inl ([PrintHelp Stdout], SystemExit 0)"
  by (simp add: parse_args_def take_action_help)

section \<open>The claims\<close>

text \<open>
  C1. For every token that is a canonical subcommand name or one of its declared
  aliases in the specification's table, a run that reaches dispatch (the parser
  accepted the command line and the version flag is not set) calls exactly one
  subcommand function, the handler the table gives for that entry; and the run
  with the canonical name in place of the token calls that same handler.
\<close>

theorem dispatch_follows_alias_table:
  assumes "(name, aliases, h) \<in> set spec_registry"
    and "tok \<in> set (name # aliases)"
    and "parse_args (get_parser e) argv = Inr args"
    and "\<not> version args"
    and "subcommand_token argv = Some tok"
    and "parse_args (get_parser e) (argv\<lparr>subcommand_token := Some name\<rparr>) = Inr args'"
  shows "calls (fst (main e argv)) = [h]
       \<and> calls (fst (main e (argv\<lparr>subcommand_token := Some name\<rparr>))) = [h]"
proof -
  have "subcommand args = Some tok"
    using parse_args_subcommand [OF assms(3)] assms(5) by simp
  then have 1: "calls (fst (run_program e args)) = [h]"
    using run_program_handler [OF assms(4) _ assms(1,2)] by simp
  have "version args' = version args"
    using parse_args_version [OF assms(3)] parse_args_version [OF assms(6)] by simp
  then have "\<not> version args'"
    using assms(4) by simp
  moreover have "subcommand args' = Some name"
    using parse_args_subcommand [OF assms(6)] by simp
  moreover have "name \<in> set (name # aliases)"
    by simp
  ultimately have 2: "calls (fst (run_program e args')) = [h]"
    using run_program_handler [of args' name name aliases h e] assms(1) by simp
  show ?thesis
    using 1 2 by (simp add: calls_main [OF assms(3)] calls_main [OF assms(6)])
qed

theorem dispatch_follows_alias_table_witness:
  "(''download'', [''d'', ''dl''], Download) \<in> set spec_registry
   \<and> ''dl'' \<in> set (''download'' # [''d'', ''dl''])
   \<and> parse_args (get_parser example_env) argv_dl =
       Inr \<lparr>verbose = True, cookie = ''cookie.jar'', version = False,
            subcommand = Some ''dl'', specific = []\<rparr>
   \<and> subcommand_token argv_dl = Some ''dl''
   \<and> parse_args (get_parser example_env) (argv_dl\<lparr>subcommand_token := Some ''download''\<rparr>) =
       Inr \<lparr>verbose = True, cookie = ''cookie.jar'', version = False,
            subcommand = Some ''download'', specific = []\<rparr>
   \<and> calls (fst (main example_env argv_dl)) = [Download]
   \<and> calls (fst (main example_env (argv_dl\<lparr>subcommand_token := Some ''download''\<rparr>)))
       = [Download]"
proof -
  have 1: "(''download'', [''d'', ''dl''], Download) \<in> set spec_registry"
    by (simp add: spec_registry_def)
  have 2: "''dl'' \<in> set (''download'' # [''d'', ''dl''])"
    by simp
  note 3 = parse_examples(3)
  have 4: "\<not> version \<lparr>verbose = True, cookie = ''cookie.jar'', version = False,
            subcommand = Some ''dl'', specific = []\<rparr>"
    by simp
  have 5: "subcommand_token argv_dl = Some ''dl''"
    by (simp add: argv_dl_def)
  note 6 = parse_examples(4)
  show ?thesis
    using 1 2 3 5 6 dispatch_follows_alias_table [OF 1 2 3 4 5 6] by simp
qed

text \<open>
  C2, as amended. On every run in which the version flag is set, the update check
  is asked exactly once, before the version is printed; printing the version is the
  last effect of the run, which leaves with status 0, and no subcommand function is
  called.
\<close>

theorem version_run_after_update_check:
  assumes "parse_args (get_parser e) argv = Inr args"
    and "version args"
  shows "fst (main e argv) =
           [BasicConfig (if verbose args then DEBUG else INFO) [Stdout],
            UpdateCheck,
            Print (''online-judge-tools '' @ tool_version e
                     @ '' (+ online-judge-api-client '' @ api_version e @ '')'')]
       \<and> filter (\<lambda>ev. ev = UpdateCheck) (fst (main e argv)) = [UpdateCheck]
       \<and> snd (main e argv) = Inl (SystemExit 0)
       \<and> calls (fst (main e argv)) = []"
  using assms(2)
  by (simp add: main_events [OF assms(1)] main_result [OF assms(1)]
      calls_main [OF assms(1)] run_program_version)

theorem version_run_after_update_check_witness:
  "parse_args (get_parser example_env) argv_version =
       Inr \<lparr>verbose = False, cookie = ''cookie.jar'', version = True, subcommand = None,
            specific = []\<rparr>
   \<and> fst (main example_env argv_version) =
       [BasicConfig INFO [Stdout], UpdateCheck,
        Print ''online-judge-tools 11.5.1 (+ online-judge-api-client 10.10.1)'']
   \<and> snd (main example_env argv_version) = Inl (SystemExit 0)"
proof -
  note 1 = parse_examples(1)
  have 2: "version \<lparr>verbose = False, cookie = ''cookie.jar'', version = True,
            subcommand = None, specific = []\<rparr>"
    by simp
  show ?thesis
    using 1 version_run_after_update_check [OF 1 2] by (simp add: example_env_def)
qed

text \<open>
  C2, as stated, fails: the command line that holds only the version option parses
  to a namespace with the version flag set, and the update check is asked.
\<close>

theorem version_run_asks_update_check:
  "parse_args (get_parser example_env) argv_version =
       Inr \<lparr>verbose = False, cookie = ''cookie.jar'', version = True, subcommand = None,
            specific = []\<rparr>
   \<and> UpdateCheck \<in> set (fst (main example_env argv_version))"
  by (simp add: parse_examples(1) main_events [OF parse_examples(1)])

text \<open>
  C3. For every parsed-arguments value with the version flag set, whatever the other
  options and the subcommand token, the program prints a line that contains the
  tool's version and the API client's version, leaves with status 0, and calls no
  subcommand function.
\<close>

theorem version_flag_prints_and_exits:
  assumes "parse_args (get_parser e) argv = Inr args"
    and "version args"
  shows "\<exists>line. Print line \<in> set (fst (main e argv))
              \<and> sublist (tool_version e) line \<and> sublist (api_version e) line
              \<and> snd (main e argv) = Inl (SystemExit 0)
              \<and> calls (fst (main e argv)) = []"
proof -
  let ?line = "''online-judge-tools '' @ tool_version e
                 @ '' (+ online-judge-api-client '' @ api_version e @ '')''"
  have "Print ?line \<in> set (fst (main e argv))"
    using assms(2) by (simp add: main_events [OF assms(1)] run_program_version)
  moreover have "sublist (tool_version e) ?line"
    by (rule sublist_appendI)
  moreover have "sublist (api_version e) ?line"
  proof -
    have "?line = (''online-judge-tools '' @ tool_version e
                     @ '' (+ online-judge-api-client '') @ api_version e @ '')''"
      by simp
    then show ?thesis
      by (simp only: sublist_appendI)
  qed
  moreover have "snd (main e argv) = Inl (SystemExit 0)"
    using assms(2) by (simp add: main_result [OF assms(1)] run_program_version)
  moreover have "calls (fst (main e argv)) = []"
    using assms(2) by (simp add: calls_main [OF assms(1)] run_program_version)
  ultimately show ?thesis
    by blast
qed

theorem version_flag_prints_and_exits_witness:
  "parse_args (get_parser example_env)
     (argv_submit\<lparr>global_options := [Opt_verbose, Opt_version, Opt_cookie ''x'']\<rparr>) =
     Inr \<lparr>verbose = True, cookie = ''x'', version = True,
          subcommand = Some ''submit'', specific = [''main.cpp'']\<rparr>
   \<and> (\<exists>line. Print line \<in> set (fst (main example_env
        (argv_submit\<lparr>global_options := [Opt_verbose, Opt_version, Opt_cookie ''x'']\<rparr>)))
         \<and> sublist ''11.5.1'' line \<and> sublist ''10.10.1'' line
         \<and> snd (main example_env
              (argv_submit\<lparr>global_options := [Opt_verbose, Opt_version, Opt_cookie ''x'']\<rparr>))
             = Inl (SystemExit 0)
         \<and> calls (fst (main example_env
              (argv_submit\<lparr>global_options := [Opt_verbose, Opt_version, Opt_cookie ''x'']\<rparr>)))
             = [])"
proof -
  note 1 = parse_examples(7)
  have 2: "version \<lparr>verbose = True, cookie = ''x'', version = True,
          subcommand = Some ''submit'', specific = [''main.cpp'']\<rparr>"
    by simp
  have 3: "tool_version example_env = ''11.5.1''" "api_version example_env = ''10.10.1''"
    by (simp_all add: example_env_def)
  show ?thesis
    using 1 version_flag_prints_and_exits [OF 1 2] unfolding 3 by blast
qed

text \<open>
  C4. For every run in which the dispatched handler raises a failure of the general
  class (an instance of Exception) that is not of the deliberately-unimplemented
  class, the program logs, after the call, the full trace at severity DEBUG and the
  failure's message text with \<^verbatim>\<open>logger.exception\<close>, a record of severity ERROR
  that contains the text; it logs the upgrade hint, the INFO line that ends with the
  advice to update the version and the pip command, if and only if the update check
  answered that the tool is not current; and it leaves with status 1.
\<close>

theorem unhandled_failure_reported:
  assumes "parse_args (get_parser e) argv = Inr args"
    and "calls (fst (main e argv)) = [h]"
    and "subcommand_function e h args = Some x"
    and "isinstance_Exception x"
    and "\<not> isinstance_NotImplementedError x"
  shows "main e argv =
           ([BasicConfig (if verbose args then DEBUG else INFO) [Stdout],
             UpdateCheck,
             LoggerDebug (''args: '' @ str_args e args),
             LoggerInfo (''online-judge-tools '' @ tool_version e
                           @ '' (+ online-judge-api-client '' @ api_version e @ '')''),
             Call h,
             LoggerDebug (CHR 0x0A # format_exc e x),
             LoggerException (str_exn x)]
            @ (if update_checking_run e then []
               else [LoggerInfo (HINT e @ ''try updating the version of online-judge-tools: $ pip3 install -U online-judge-tools online-judge-api-client'')]),
            Inl (SystemExit 1))
       \<and> (\<exists>ev \<in> set (fst (main e argv)).
             severity ev = Some ERROR \<and> sublist (str_exn x) (message ev))
       \<and> (LoggerInfo (HINT e @ ''try updating the version of online-judge-tools: $ pip3 install -U online-judge-tools online-judge-api-client'')
            \<in> set (fst (main e argv))) = (\<not> update_checking_run e)"
proof -
  note r = main_handler_raises [OF assms(1,2,3)]
  have ev: "fst (main e argv) =
           [BasicConfig (if verbose args then DEBUG else INFO) [Stdout],
             UpdateCheck,
             LoggerDebug (''args: '' @ str_args e args),
             LoggerInfo (''online-judge-tools '' @ tool_version e
                           @ '' (+ online-judge-api-client '' @ api_version e @ '')''),
             Call h,
             LoggerDebug (CHR 0x0A # format_exc e x),
             LoggerException (str_exn x)]
            @ (if update_checking_run e then []
               else [LoggerInfo (HINT e @ ''try updating the version of online-judge-tools: $ pip3 install -U online-judge-tools online-judge-api-client'')])"
    using r assms(4,5) by (simp add: main_events [OF assms(1)] upgrade_hint_def)
  have res: "snd (main e argv) = Inl (SystemExit 1)"
    using r assms(4,5) by (simp add: main_result [OF assms(1)])
  have "LoggerException (str_exn x) \<in> set (fst (main e argv))"
    by (simp add: ev)
  moreover have "severity (LoggerException (str_exn x)) = Some ERROR"
    by simp
  moreover have "sublist (str_exn x) (message (LoggerException (str_exn x)))"
    by simp
  ultimately have err: "\<exists>ev \<in> set (fst (main e argv)).
             severity ev = Some ERROR \<and> sublist (str_exn x) (message ev)"
    by blast
  have hint: "(LoggerInfo (HINT e @ ''try updating the version of online-judge-tools: $ pip3 install -U online-judge-tools online-judge-api-client'')
            \<in> set (fst (main e argv))) = (\<not> update_checking_run e)"
    by (simp add: ev hint_text_neq)
  from ev res have "main e argv = (fst (main e argv), Inl (SystemExit 1))"
    by (metis prod.collapse)
  with ev err hint show ?thesis
    by simp
qed

theorem unhandled_failure_reported_witness:
  "parse_args (get_parser example_env) argv_submit =
     Inr \<lparr>verbose = False, cookie = ''my.jar'', version = False,
          subcommand = Some ''submit'', specific = [''main.cpp'']\<rparr>
   \<and> calls (fst (main example_env argv_submit)) = [Submit]
   \<and> subcommand_function example_env Submit
       \<lparr>verbose = False, cookie = ''my.jar'', version = False,
        subcommand = Some ''submit'', specific = [''main.cpp'']\<rparr>
       = Some (OtherException ''boom'')
   \<and> isinstance_Exception (OtherException ''boom'')
   \<and> \<not> isinstance_NotImplementedError (OtherException ''boom'')
   \<and> main example_env argv_submit =
       ([BasicConfig INFO [Stdout],
         UpdateCheck,
         LoggerDebug ''args: Namespace'',
         LoggerInfo ''online-judge-tools 11.5.1 (+ online-judge-api-client 10.10.1)'',
         Call Submit,
         LoggerDebug (CHR 0x0A # ''Traceback (most recent call last)''),
         LoggerException ''boom'',
         LoggerInfo ''HINT: try updating the version of online-judge-tools: $ pip3 install -U online-judge-tools online-judge-api-client''],
        Inl (SystemExit 1))"
proof -
  note 0 = parse_examples(6)
  have 1: "calls (fst (main example_env argv_submit)) = [Submit]"
    by (simp add: calls_main [OF 0] run_program_def after_def call_def)
  have 2: "subcommand_function example_env Submit
       \<lparr>verbose = False, cookie = ''my.jar'', version = False,
        subcommand = Some ''submit'', specific = [''main.cpp'']\<rparr>
       = Some (OtherException ''boom'')"
    by (simp add: example_env_def)
  have 3: "isinstance_Exception (OtherException ''boom'')"
    by simp
  have 4: "\<not> isinstance_NotImplementedError (OtherException ''boom'')"
    by simp
  have 6: "tool_version example_env = ''11.5.1''" "api_version example_env = ''10.10.1''"
    "\<not> update_checking_run example_env" "HINT example_env = ''HINT: ''"
    "str_args example_env a = ''Namespace''"
    "format_exc example_env (OtherException ''boom'') = ''Traceback (most recent call last)''"
    for a
    by (simp_all add: example_env_def)
  show ?thesis
    using 0 1 2 3 4 6 unhandled_failure_reported [OF 0 1 2 3 4] by simp
qed

text \<open>
  C5. For every run in which the dispatched handler raises the
  deliberately-unimplemented class, the program logs, after the call, the full trace
  at severity DEBUG, the one-line marker \<^verbatim>\<open>NotImplementedError\<close> at severity ERROR,
  the two informational lines pointing to the contribution process, and the upgrade
  hint, the INFO line that ends with the advice to update the version and the pip
  command, exactly when the update check answered that the tool is not current; it
  leaves with status 1.
\<close>

theorem not_supported_reported:
  assumes "parse_args (get_parser e) argv = Inr args"
    and "calls (fst (main e argv)) = [h]"
    and "subcommand_function e h args = Some x"
    and "isinstance_NotImplementedError x"
  shows "main e argv =
           ([BasicConfig (if verbose args then DEBUG else INFO) [Stdout],
             UpdateCheck,
             LoggerDebug (''args: '' @ str_args e args),
             LoggerInfo (''online-judge-tools '' @ tool_version e
                           @ '' (+ online-judge-api-client '' @ api_version e @ '')''),
             Call h,
             LoggerDebug (CHR 0x0A # format_exc e x),
             LoggerError ''NotImplementedError'',
             LoggerInfo ''The operation you specified is not supported yet. Pull requests are welcome.'',
             LoggerInfo ''see: https://github.com/online-judge-tools/oj'']
            @ (if update_checking_run e then []
               else [LoggerInfo (HINT e @ ''try updating the version of online-judge-tools: $ pip3 install -U online-judge-tools online-judge-api-client'')]),
            Inl (SystemExit 1))
       \<and> CHR 0x0A \<notin> set ''NotImplementedError''
       \<and> (LoggerInfo (HINT e @ ''try updating the version of online-judge-tools: $ pip3 install -U online-judge-tools online-judge-api-client'')
            \<in> set (fst (main e argv))) = (\<not> update_checking_run e)"
proof -
  note r = main_handler_raises [OF assms(1,2,3)]
  have ev: "fst (main e argv) =
           [BasicConfig (if verbose args then DEBUG else INFO) [Stdout],
             UpdateCheck,
             LoggerDebug (''args: '' @ str_args e args),
             LoggerInfo (''online-judge-tools '' @ tool_version e
                           @ '' (+ online-judge-api-client '' @ api_version e @ '')''),
             Call h,
             LoggerDebug (CHR 0x0A # format_exc e x),
             LoggerError ''NotImplementedError'',
             LoggerInfo ''The operation you specified is not supported yet. Pull requests are welcome.'',
             LoggerInfo ''see: https://github.com/online-judge-tools/oj'']
            @ (if update_checking_run e then []
               else [LoggerInfo (HINT e @ ''try updating the version of online-judge-tools: $ pip3 install -U online-judge-tools online-judge-api-client'')])"
    using r assms(4) by (simp add: main_events [OF assms(1)] upgrade_hint_def)
  have res: "snd (main e argv) = Inl (SystemExit 1)"
    using r assms(4) by (simp add: main_result [OF assms(1)])
  have line: "CHR 0x0A \<notin> set ''NotImplementedError''"
    by simp
  have hint: "(LoggerInfo (HINT e @ ''try updating the version of online-judge-tools: $ pip3 install -U online-judge-tools online-judge-api-client'')
            \<in> set (fst (main e argv))) = (\<not> update_checking_run e)"
    by (simp add: ev hint_text_neq)
  from ev res have "main e argv = (fst (main e argv), Inl (SystemExit 1))"
    by (metis prod.collapse)
  with ev line hint show ?thesis
    by simp
qed

theorem not_supported_reported_witness:
  "parse_args (get_parser example_env) argv_login =
     Inr \<lparr>verbose = False, cookie = ''cookie.jar'', version = False,
          subcommand = Some ''l'', specific = []\<rparr>
   \<and> calls (fst (main example_env argv_login)) = [Login]
   \<and> subcommand_function example_env Login
       \<lparr>verbose = False, cookie = ''cookie.jar'', version = False,
        subcommand = Some ''l'', specific = []\<rparr>
       = Some (NotImplementedError [])
   \<and> isinstance_NotImplementedError (NotImplementedError [])
   \<and> main example_env argv_login =
       ([BasicConfig INFO [Stdout],
         UpdateCheck,
         LoggerDebug ''args: Namespace'',
         LoggerInfo ''online-judge-tools 11.5.1 (+ online-judge-api-client 10.10.1)'',
         Call Login,
         LoggerDebug (CHR 0x0A # ''Traceback (most recent call last)''),
         LoggerError ''NotImplementedError'',
         LoggerInfo ''The operation you specified is not supported yet. Pull requests are welcome.'',
         LoggerInfo ''see: https://github.com/online-judge-tools/oj'',
         LoggerInfo ''HINT: try updating the version of online-judge-tools: $ pip3 install -U online-judge-tools online-judge-api-client''],
        Inl (SystemExit 1))"
proof -
  note 0 = parse_examples(5)
  have 1: "calls (fst (main example_env argv_login)) = [Login]"
    by (simp add: calls_main [OF 0] run_program_def after_def call_def)
  have 2: "subcommand_function example_env Login
       \<lparr>verbose = False, cookie = ''cookie.jar'', version = False,
        subcommand = Some ''l'', specific = []\<rparr>
       = Some (NotImplementedError [])"
    by (simp add: example_env_def)
  have 3: "isinstance_NotImplementedError (NotImplementedError [])"
    by simp
  have 6: "tool_version example_env = ''11.5.1''" "api_version example_env = ''10.10.1''"
    "\<not> update_checking_run example_env" "HINT example_env = ''HINT: ''"
    "str_args example_env a = ''Namespace''"
    "format_exc example_env (NotImplementedError []) = ''Traceback (most recent call last)''"
    for a
    by (simp_all add: example_env_def)
  show ?thesis
    using 0 1 2 3 6 not_supported_reported [OF 0 1 2 3] by simp
qed

text \<open>
  C6, as amended. For every run whose command line the argument parser accepts and
  in which the version flag is not set, if no subcommand token was supplied, or the
  token is no canonical name and no alias of the table, the program prints the
  help to the error stream and leaves with status 1, and no subcommand function is
  called. A command line the parser does not accept never reaches that step: on a
  token that no subparser registers argparse reports a usage error and leaves with
  status 2, and on \<^verbatim>\<open>-h\<close> it prints the help on the standard output and leaves
  with status 0.
\<close>

theorem no_subcommand_prints_help:
  "(parse_args (get_parser e) argv = Inr args
      \<and> \<not> version args
      \<and> (subcommand_token argv = None
          \<or> (\<exists>tok. subcommand_token argv = Some tok \<and> tok \<notin> set spec_tokens))
    \<longrightarrow> main e argv =
           ([BasicConfig (if verbose args then DEBUG else INFO) [Stdout],
             UpdateCheck,
             LoggerDebug (''args: '' @ str_args e args),
             LoggerInfo (''online-judge-tools '' @ tool_version e
                           @ '' (+ online-judge-api-client '' @ api_version e @ '')''),
             PrintHelp Stderr],
            Inl (SystemExit 1))
        \<and> calls (fst (main e argv)) = [])
   \<and> (Opt_help \<notin> set (global_options argv)
      \<and> (\<exists>tok. subcommand_token argv = Some tok \<and> tok \<notin> set (subparser_names e))
    \<longrightarrow> main e argv = ([ParserError], Inl (SystemExit 2)))
   \<and> (Opt_help \<in> set (global_options argv)
    \<longrightarrow> main e argv = ([PrintHelp Stdout], Inl (SystemExit 0)))"
proof (intro conjI impI)
  assume a: "parse_args (get_parser e) argv = Inr args
      \<and> \<not> version args
      \<and> (subcommand_token argv = None
          \<or> (\<exists>tok. subcommand_token argv = Some tok \<and> tok \<notin> set spec_tokens))"
  then have parsed: "parse_args (get_parser e) argv = Inr args"
    and nv: "\<not> version args"
    by simp_all
  have sub: "subcommand args = None
         \<or> (\<exists>tok. subcommand args = Some tok \<and> tok \<notin> set spec_tokens)"
    using a parse_args_subcommand [OF parsed] by simp
  note r = run_program_no_handler [OF nv sub]
  have "fst (main e argv) =
           [BasicConfig (if verbose args then DEBUG else INFO) [Stdout],
             UpdateCheck,
             LoggerDebug (''args: '' @ str_args e args),
             LoggerInfo (''online-judge-tools '' @ tool_version e
                           @ '' (+ online-judge-api-client '' @ api_version e @ '')''),
             PrintHelp Stderr]"
    by (simp add: main_events [OF parsed] r)
  moreover have "snd (main e argv) = Inl (SystemExit 1)"
    by (simp add: main_result [OF parsed] r)
  ultimately show "main e argv =
           ([BasicConfig (if verbose args then DEBUG else INFO) [Stdout],
             UpdateCheck,
             LoggerDebug (''args: '' @ str_args e args),
             LoggerInfo (''online-judge-tools '' @ tool_version e
                           @ '' (+ online-judge-api-client '' @ api_version e @ '')''),
             PrintHelp Stderr],
            Inl (SystemExit 1))"
    by (simp add: prod_eq_iff)
  show "calls (fst (main e argv)) = []"
    by (simp add: calls_main [OF parsed] r)
next
  assume "Opt_help \<notin> set (global_options argv)
      \<and> (\<exists>tok. subcommand_token argv = Some tok \<and> tok \<notin> set (subparser_names e))"
  then obtain tok where "Opt_help \<notin> set (global_options argv)"
    and "subcommand_token argv = Some tok" and "tok \<notin> set (subparser_names e)"
    by blast
  then show "main e argv = ([ParserError], Inl (SystemExit 2))"
    by (simp add: main_parser_leaves parse_args_unregistered)
next
  assume "Opt_help \<in> set (global_options argv)"
  then show "main e argv = ([PrintHelp Stdout], Inl (SystemExit 0))"
    by (simp add: main_parser_leaves parse_args_help)
qed

theorem no_subcommand_prints_help_witness:
  "parse_args (get_parser example_env) argv_none =
     Inr \<lparr>verbose = False, cookie = ''cookie.jar'', version = False, subcommand = None,
          specific = []\<rparr>
   \<and> subcommand_token argv_none = None
   \<and> main example_env argv_none =
       ([BasicConfig INFO [Stdout],
         UpdateCheck,
         LoggerDebug ''args: Namespace'',
         LoggerInfo ''online-judge-tools 11.5.1 (+ online-judge-api-client 10.10.1)'',
         PrintHelp Stderr],
        Inl (SystemExit 1))
   \<and> calls (fst (main example_env argv_none)) = []
   \<and> Opt_help \<notin> set (global_options argv_bogus)
   \<and> subcommand_token argv_bogus = Some ''bogus''
   \<and> ''bogus'' \<notin> set (subparser_names example_env)
   \<and> main example_env argv_bogus = ([ParserError], Inl (SystemExit 2))
   \<and> Opt_help \<in> set (global_options argv_help)
   \<and> main example_env argv_help = ([PrintHelp Stdout], Inl (SystemExit 0))"
proof -
  note 1 = parse_examples(2)
  have 2: "subcommand_token argv_none = None"
    by (simp add: argv_none_def)
  have 3: "Opt_help \<notin> set (global_options argv_bogus)"
    "subcommand_token argv_bogus = Some ''bogus''"
    "''bogus'' \<notin> set (subparser_names example_env)"
    "Opt_help \<in> set (global_options argv_help)"
    by (simp_all add: argv_bogus_def argv_help_def example_env_def)
  have 4: "tool_version example_env = ''11.5.1''" "api_version example_env = ''10.10.1''"
    "str_args example_env a = ''Namespace''" for a
    by (simp_all add: example_env_def)
  show ?thesis
    using 1 2 3 4
      no_subcommand_prints_help [of example_env argv_none
        "\<lparr>verbose = False, cookie = ''cookie.jar'', version = False, subcommand = None,
          specific = []\<rparr>"]
      no_subcommand_prints_help [of example_env argv_bogus
        "\<lparr>verbose = False, cookie = ''cookie.jar'', version = False, subcommand = None,
          specific = []\<rparr>"]
      no_subcommand_prints_help [of example_env argv_help
        "\<lparr>verbose = False, cookie = ''cookie.jar'', version = False, subcommand = None,
          specific = []\<rparr>"]
    by simp
qed

text \<open>
  C6, as stated, fails twice. On the command line that holds only the version
  option no subcommand token is supplied, yet the run prints no help and leaves with
  status 0. On the token \<^verbatim>\<open>bogus\<close>, which is in no entry of the table and which no
  subparser registers, the run ends in the parser with a usage error and status 2.
\<close>

theorem no_subcommand_with_version_exits_0:
  "subcommand_token argv_version = None
   \<and> PrintHelp Stderr \<notin> set (fst (main example_env argv_version))
   \<and> snd (main example_env argv_version) = Inl (SystemExit 0)
   \<and> subcommand_token argv_bogus = Some ''bogus''
   \<and> ''bogus'' \<notin> set spec_tokens
   \<and> main example_env argv_bogus = ([ParserError], Inl (SystemExit 2))"
proof -
  have "subcommand_token argv_version = None"
    by (simp add: argv_version_def)
  moreover have "PrintHelp Stderr \<notin> set (fst (main example_env argv_version))"
    by (simp add: main_events [OF parse_examples(1)] run_program_version)
  moreover have "snd (main example_env argv_version) = Inl (SystemExit 0)"
    by (simp add: main_result [OF parse_examples(1)] run_program_version)
  moreover have "subcommand_token argv_bogus = Some ''bogus''"
    by (simp add: argv_bogus_def)
  moreover have "''bogus'' \<notin> set spec_tokens"
    by (simp add: spec_tokens_def spec_registry_def)
  moreover have "main example_env argv_bogus = ([ParserError], Inl (SystemExit 2))"
    by (rule main_parser_leaves [OF parse_examples(8)])
  ultimately show ?thesis
    by simp
qed

text \<open>
  C7. On every run (of a command line the parser accepts), \<^verbatim>\<open>basicConfig\<close> is the
  first effect and is called once, so before anything \<^verbatim>\<open>run_program\<close> does: with
  level DEBUG when the verbose flag is set and INFO otherwise, and with one handler,
  a stream handler on the standard output. The verbose flag is set exactly when the
  option was given, and when no cookie option was given the cookie path is the
  collaborator's default.
\<close>

theorem logging_configured_once:
  assumes "parse_args (get_parser e) argv = Inr args"
  shows "(\<exists>rest. fst (main e argv) =
            BasicConfig (if verbose args then DEBUG else INFO) [Stdout] # rest
          \<and> (\<forall>l s. BasicConfig l s \<notin> set rest))
       \<and> verbose args = (Opt_verbose \<in> set (global_options argv))
       \<and> ((\<forall>p. Opt_cookie p \<notin> set (global_options argv)) \<longrightarrow>
            cookie args = default_cookie_path e)"
proof -
  obtain rest where rest: "fst (main e argv) =
        BasicConfig (if verbose args then DEBUG else INFO) [Stdout] # rest"
    and tail: "rest = UpdateCheck # fst (run_program e args)
        @ (case snd (run_program e args) of
          Inr u \<Rightarrow> []
        | Inl x \<Rightarrow>
            if isinstance_NotImplementedError x then
              [LoggerDebug (CHR 0x0A # format_exc e x),
               LoggerError ''NotImplementedError'',
               LoggerInfo ''The operation you specified is not supported yet. Pull requests are welcome.'',
               LoggerInfo ''see: https://github.com/online-judge-tools/oj'']
              @ (if update_checking_run e then [] else [upgrade_hint e])
            else if isinstance_Exception x then
              [LoggerDebug (CHR 0x0A # format_exc e x), LoggerException (str_exn x)]
              @ (if update_checking_run e then [] else [upgrade_hint e])
            else [])"
    using main_events [OF assms] by blast
  have "BasicConfig l s \<notin> set rest" for l s
    unfolding tail
    by (simp add: run_program_no_BasicConfig upgrade_hint_def split: sum.splits)
  with rest have "\<exists>rest. fst (main e argv) =
        BasicConfig (if verbose args then DEBUG else INFO) [Stdout] # rest
      \<and> (\<forall>l s. BasicConfig l s \<notin> set rest)"
    by blast
  then show ?thesis
    using parse_args_verbose [OF assms] parse_args_cookie [OF assms] by blast
qed

theorem logging_configured_once_witness:
  "parse_args (get_parser example_env) argv_dl =
       Inr \<lparr>verbose = True, cookie = ''cookie.jar'', version = False,
            subcommand = Some ''dl'', specific = []\<rparr>
   \<and> (\<forall>p. Opt_cookie p \<notin> set (global_options argv_dl))
   \<and> hd (fst (main example_env argv_dl)) = BasicConfig DEBUG [Stdout]
   \<and> default_cookie_path example_env = ''cookie.jar''"
proof -
  note 0 = parse_examples(3)
  have 1: "\<forall>p. Opt_cookie p \<notin> set (global_options argv_dl)"
    by (simp add: argv_dl_def)
  have 3: "default_cookie_path example_env = ''cookie.jar''"
    by (simp add: example_env_def)
  show ?thesis
    using 0 1 3 logging_configured_once [OF 0] by auto
qed

text \<open>
  C8. When the version flag is set, or when no subcommand token was supplied or the
  token is in no entry of the table, \<^verbatim>\<open>run_program\<close> leaves by raising SystemExit,
  which is no instance of Exception and so is caught by neither except clause: the
  run ends with that status, 0 on the version path and 1 otherwise, and logs no
  trace, no record of severity ERROR and no upgrade hint.
\<close>

theorem exit_is_not_classified:
  assumes "parse_args (get_parser e) argv = Inr args"
    and "version args
         \<or> subcommand_token argv = None
         \<or> (\<exists>tok. subcommand_token argv = Some tok \<and> tok \<notin> set spec_tokens)"
  shows "snd (run_program e args) = Inl (SystemExit (if version args then 0 else 1))
       \<and> \<not> isinstance_Exception (SystemExit (if version args then 0 else 1))
       \<and> \<not> isinstance_NotImplementedError (SystemExit (if version args then 0 else 1))
       \<and> snd (main e argv) = Inl (SystemExit (if version args then 0 else 1))
       \<and> (\<forall>x. LoggerDebug (CHR 0x0A # format_exc e x) \<notin> set (fst (main e argv)))
       \<and> (\<forall>ev \<in> set (fst (main e argv)). severity ev \<noteq> Some ERROR)
       \<and> upgrade_hint e \<notin> set (fst (main e argv))
       \<and> LoggerInfo (HINT e @ ''try updating the version of online-judge-tools: $ pip3 install -U online-judge-tools online-judge-api-client'')
           \<notin> set (fst (main e argv))
       \<and> calls (fst (main e argv)) = []"
proof (cases "version args")
  case True
  then show ?thesis
    by (simp add: main_events [OF assms(1)] main_result [OF assms(1)]
        calls_main [OF assms(1)] run_program_version upgrade_hint_def)
next
  case False
  with assms(2) have sub: "subcommand args = None
         \<or> (\<exists>tok. subcommand args = Some tok \<and> tok \<notin> set spec_tokens)"
    using parse_args_subcommand [OF assms(1)] by simp
  show ?thesis
    using False
    by (simp add: main_events [OF assms(1)] main_result [OF assms(1)]
        calls_main [OF assms(1)] run_program_no_handler [OF False sub]
        upgrade_hint_def hint_text_neq)
qed

theorem exit_is_not_classified_witness:
  "parse_args (get_parser example_env) argv_none =
     Inr \<lparr>verbose = False, cookie = ''cookie.jar'', version = False, subcommand = None,
          specific = []\<rparr>
   \<and> subcommand_token argv_none = None
   \<and> snd (main example_env argv_none) = Inl (SystemExit 1)
   \<and> filter (\<lambda>ev. severity ev = Some ERROR) (fst (main example_env argv_none)) = []
   \<and> upgrade_hint example_env \<notin> set (fst (main example_env argv_none))
   \<and> parse_args (get_parser example_env) argv_version =
       Inr \<lparr>verbose = False, cookie = ''cookie.jar'', version = True, subcommand = None,
            specific = []\<rparr>
   \<and> snd (main example_env argv_version) = Inl (SystemExit 0)
   \<and> filter (\<lambda>ev. severity ev = Some ERROR) (fst (main example_env argv_version)) = []
   \<and> upgrade_hint example_env \<notin> set (fst (main example_env argv_version))"
proof -
  note 0 = parse_examples(2)
  note 3 = parse_examples(1)
  have 1: "subcommand_token argv_none = None"
    by (simp add: argv_none_def)
  show ?thesis
    using 0 1 3 exit_is_not_classified [OF 0] exit_is_not_classified [OF 3]
    by (simp add: filter_empty_conv)
qed

text \<open>
  C9. A failure of the deliberately-unimplemented class is also an instance of the
  general class the second except clause matches, yet the first clause handles it:
  the marker is logged and \<^verbatim>\<open>logger.exception\<close> is not called. For every failure
  of the general class raised by the dispatched handler exactly one of the two
  clauses runs: the run holds exactly one record of severity ERROR, the marker for
  the first clause or the message logged by \<^verbatim>\<open>logger.exception\<close> for the second.
\<close>

theorem not_supported_takes_precedence:
  assumes "parse_args (get_parser e) argv = Inr args"
    and "calls (fst (main e argv)) = [h]"
    and "subcommand_function e h args = Some x"
    and "isinstance_NotImplementedError x \<or> isinstance_Exception x"
  shows "(isinstance_NotImplementedError x \<longrightarrow>
            isinstance_Exception x
          \<and> LoggerError ''NotImplementedError'' \<in> set (fst (main e argv))
          \<and> (\<forall>m. LoggerException m \<notin> set (fst (main e argv))))
       \<and> (\<not> isinstance_NotImplementedError x \<longrightarrow>
            LoggerException (str_exn x) \<in> set (fst (main e argv))
          \<and> (\<forall>m. LoggerError m \<notin> set (fst (main e argv))))
       \<and> length (filter (\<lambda>ev. severity ev = Some ERROR) (fst (main e argv))) = 1"
proof -
  note r = main_handler_raises [OF assms(1,2,3)]
  show ?thesis
  proof (cases "isinstance_NotImplementedError x")
    case True
    then have "isinstance_Exception x"
      by (cases x) simp_all
    with True r show ?thesis
      by (simp add: main_events [OF assms(1)] upgrade_hint_def)
  next
    case False
    with assms(4) have "isinstance_Exception x"
      by simp
    with False r show ?thesis
      by (simp add: main_events [OF assms(1)] upgrade_hint_def)
  qed
qed

theorem not_supported_takes_precedence_witness:
  "parse_args (get_parser example_env) argv_login =
     Inr \<lparr>verbose = False, cookie = ''cookie.jar'', version = False,
          subcommand = Some ''l'', specific = []\<rparr>
   \<and> calls (fst (main example_env argv_login)) = [Login]
   \<and> isinstance_NotImplementedError (NotImplementedError [])
   \<and> isinstance_Exception (NotImplementedError [])
   \<and> LoggerError ''NotImplementedError'' \<in> set (fst (main example_env argv_login))
   \<and> (\<forall>m. LoggerException m \<notin> set (fst (main example_env argv_login)))"
proof -
  note 0 = parse_examples(5)
  have 1: "calls (fst (main example_env argv_login)) = [Login]"
    by (simp add: calls_main [OF 0] run_program_def after_def call_def)
  have 2: "subcommand_function example_env Login
       \<lparr>verbose = False, cookie = ''cookie.jar'', version = False,
        subcommand = Some ''l'', specific = []\<rparr>
       = Some (NotImplementedError [])"
    by (simp add: example_env_def)
  have 3: "isinstance_NotImplementedError (NotImplementedError [])
           \<or> isinstance_Exception (NotImplementedError [])"
    by simp
  show ?thesis
    using 0 1 not_supported_takes_precedence [OF 0 1 2 3] by simp
qed

text \<open>
  C10. On every run in which the version flag is not set, whatever the subcommand
  token, the program logs at severity INFO a line containing the tool's version and
  the API client's version, and no subcommand function is called before it.
\<close>

theorem versions_logged_before_dispatch:
  assumes "parse_args (get_parser e) argv = Inr args"
    and "\<not> version args"
  shows "\<exists>pre line rest.
           fst (main e argv) = pre @ LoggerInfo line # rest
         \<and> calls pre = []
         \<and> severity (LoggerInfo line) = Some INFO
         \<and> sublist (tool_version e) line \<and> sublist (api_version e) line"
proof -
  let ?line = "''online-judge-tools '' @ tool_version e
                 @ '' (+ online-judge-api-client '' @ api_version e @ '')''"
  let ?pre = "[BasicConfig (if verbose args then DEBUG else INFO) [Stdout], UpdateCheck,
               LoggerDebug (''args: '' @ str_args e args)]"
  obtain r where r: "fst (run_program e args)
                     = [LoggerDebug (''args: '' @ str_args e args), LoggerInfo ?line] @ r"
    using run_program_announces [OF assms(2)] by blast
  have "\<exists>rest. fst (main e argv) = ?pre @ LoggerInfo ?line # rest"
    by (simp add: main_events [OF assms(1)] r)
  moreover have "calls ?pre = []"
    by simp
  moreover have "sublist (tool_version e) ?line"
    by (rule sublist_appendI)
  moreover have "sublist (api_version e) ?line"
  proof -
    have "?line = (''online-judge-tools '' @ tool_version e
                     @ '' (+ online-judge-api-client '') @ api_version e @ '')''"
      by simp
    then show ?thesis
      by (simp only: sublist_appendI)
  qed
  moreover have "severity (LoggerInfo ?line) = Some INFO"
    by simp
  ultimately show ?thesis
    by blast
qed

theorem versions_logged_before_dispatch_witness:
  "parse_args (get_parser example_env) argv_dl =
       Inr \<lparr>verbose = True, cookie = ''cookie.jar'', version = False,
            subcommand = Some ''dl'', specific = []\<rparr>
   \<and> (\<exists>pre line rest.
           fst (main example_env argv_dl) = pre @ LoggerInfo line # rest
         \<and> calls pre = []
         \<and> severity (LoggerInfo line) = Some INFO
         \<and> sublist ''11.5.1'' line \<and> sublist ''10.10.1'' line)"
proof -
  note 0 = parse_examples(3)
  have 1: "\<not> version \<lparr>verbose = True, cookie = ''cookie.jar'', version = False,
            subcommand = Some ''dl'', specific = []\<rparr>"
    by simp
  have 2: "tool_version example_env = ''11.5.1''" "api_version example_env = ''10.10.1''"
    by (simp_all add: example_env_def)
  show ?thesis
    using 0 versions_logged_before_dispatch [OF 0 1] unfolding 2 by blast
qed

end
